theory Spec2Isabelle
  imports Complex_Main
begin

section \<open>Conventions of the embedding\<close>

text \<open>
  The AI service of Suraksha Yatra (\<^verbatim>\<open>src/ai-service/ml_models\<close>) is embedded function by
  function. Python integers are modelled by \<^typ>\<open>int\<close> or \<^typ>\<open>nat\<close>, dictionaries with a
  fixed set of keys by records and open dictionaries by association lists in insertion
  order. An exception is the value \<^const>\<open>None\<close> of an option type; the handlers of the
  source catch every exception alike, so its kind is not recorded.

  What the source obtains from outside its own code is a parameter of the model:
  \<^item> the great-circle distance \<^verbatim>\<open>geodesic(a, b).kilometers\<close> of geopy;
  \<^item> the wall clock (\<^verbatim>\<open>datetime.now()\<close>, \<^verbatim>\<open>datetime.utcnow()\<close>);
  \<^item> the document store behind \<^verbatim>\<open>DatabaseClient\<close>;
  \<^item> the trained regressor with its scaler, the random draws of numpy, the slope
    returned by \<^verbatim>\<open>np.polyfit\<close> and the labels computed by scikit-learn's DBSCAN.
\<close>

subsection \<open>Python floats\<close>

text \<open>
  A Python float is a binary64 number: a finite value, an infinity with its sign
  (\<^verbatim>\<open>True\<close> for the positive one) or NaN. The two zeros are not distinguished. Where the
  rounded result of the source's own arithmetic is compared, truncated or divided by,
  the arithmetic is modelled with its rounding, by the functions of this subsection.
  The statistics computed inside numpy (means, deviations, percentiles) and the
  continuous scores derived from them are computed exactly, over \<^typ>\<open>real\<close>.
\<close>

datatype pyfloat = Fin real | Infty bool | NaN

text \<open>The number of binary digits of a natural number, and from it \<open>\<lfloor>log\<^sub>2 x\<rfloor>\<close> for \<open>x > 0\<close>.\<close>

fun bit_length :: "nat \<Rightarrow> nat" where
  "bit_length n = (if n = 0 then 0 else Suc (bit_length (n div 2)))"

declare bit_length.simps [simp del]

definition ilog2 :: "real \<Rightarrow> int" where
  "ilog2 x =
     (if x \<ge> 1 then int (bit_length (nat \<lfloor>x\<rfloor>)) - 1
      else - int (bit_length (nat (\<lceil>1 / x\<rceil> - 1))))"

definition pow2 :: "int \<Rightarrow> real" where
  "pow2 e = (if e \<ge> 0 then 2 ^ nat e else 1 / 2 ^ nat (- e))"

text \<open>Rounding to the nearest integer, a tie going to the even one.\<close>

definition py_round :: "real \<Rightarrow> int" where
  "py_round x =
     (let f = \<lfloor>x\<rfloor>; d = x - of_int f
      in if d < 1 / 2 then f
         else if d > 1 / 2 then f + 1
         else if even f then f else f + 1)"

text \<open>
  \<open>fl x\<close> is the binary64 number nearest to the real \<open>x\<close>, a tie going to the even
  significand: 53 significant bits, the least exponent -1022 (below it the spacing
  stays \<open>2\<^sup>-\<^sup>1\<^sup>0\<^sup>7\<^sup>4\<close>), and an infinity where the rounded value reaches \<open>2\<^sup>1\<^sup>0\<^sup>2\<^sup>4\<close>.
\<close>

definition fl :: "real \<Rightarrow> pyfloat" where
  "fl x =
     (if x = 0 then Fin 0
      else
        let e = max (ilog2 \<bar>x\<bar>) (- 1022);
            q = pow2 (e - 52);
            r = of_int (py_round (x / q)) * q
        in if \<bar>r\<bar> \<ge> 2 ^ 1024 then Infty (x > 0) else Fin r)"

text \<open>The comparisons: every comparison with NaN is false.\<close>

fun flt :: "pyfloat \<Rightarrow> pyfloat \<Rightarrow> bool" where
  "flt NaN y = False"
| "flt x NaN = False"
| "flt (Fin a) (Fin b) = (a < b)"
| "flt (Fin a) (Infty t) = t"
| "flt (Infty s) (Fin b) = (\<not> s)"
| "flt (Infty s) (Infty t) = (\<not> s \<and> t)"

definition fgt :: "pyfloat \<Rightarrow> pyfloat \<Rightarrow> bool" where
  "fgt x y = flt y x"

text \<open>
  The built-in \<^verbatim>\<open>min(a, b)\<close> and \<^verbatim>\<open>max(a, b)\<close> keep the first argument unless the
  second compares smaller, respectively greater.
\<close>

definition py_min :: "pyfloat \<Rightarrow> pyfloat \<Rightarrow> pyfloat" where
  "py_min a b = (if flt b a then b else a)"

definition py_max :: "pyfloat \<Rightarrow> pyfloat \<Rightarrow> pyfloat" where
  "py_max a b = (if fgt b a then b else a)"





fun fmul :: "pyfloat \<Rightarrow> pyfloat \<Rightarrow> pyfloat" where
  "fmul NaN y = NaN"
| "fmul x NaN = NaN"
| "fmul (Fin a) (Fin b) = fl (a * b)"
| "fmul (Fin a) (Infty t) = (if a = 0 then NaN else Infty (t = (0 < a)))"
| "fmul (Infty s) (Fin b) = (if b = 0 then NaN else Infty (s = (0 < b)))"
| "fmul (Infty s) (Infty t) = Infty (s = t)"

text \<open>
  The division \<^verbatim>\<open>a / b\<close> of Python floats raises \<^verbatim>\<open>ZeroDivisionError\<close> for a divisor
  zero, whatever the dividend.
\<close>

fun fdiv :: "pyfloat \<Rightarrow> pyfloat \<Rightarrow> pyfloat option" where
  "fdiv x (Fin b) =
     (if b = 0 then None
      else (case x of
              Fin a \<Rightarrow> Some (fl (a / b))
            | Infty s \<Rightarrow> Some (Infty (s = (0 < b)))
            | NaN \<Rightarrow> Some NaN))"
| "fdiv x NaN = Some NaN"
| "fdiv (Fin a) (Infty t) = Some (Fin 0)"
| "fdiv (Infty s) (Infty t) = Some NaN"
| "fdiv NaN (Infty t) = Some NaN"

text \<open>
  The power \<^verbatim>\<open>x ** 2\<close> raises \<^verbatim>\<open>OverflowError\<close> where the square of a finite float is
  too large for a float; the square itself is taken as correctly rounded.
\<close>

fun fsquare :: "pyfloat \<Rightarrow> pyfloat option" where
  "fsquare (Fin a) = (case fl (a * a) of Infty s \<Rightarrow> None | r \<Rightarrow> Some r)"
| "fsquare (Infty s) = Some (Infty True)"
| "fsquare NaN = Some NaN"



subsection \<open>The environment of a call\<close>

type_synonym coords = "real \<times> real"

text \<open>
  \<open>geodesic_km a b\<close> is the distance in kilometres that geopy computes between two points
  \<open>(latitude, longitude)\<close> it accepts. \<open>utcnow k\<close> is the reading of the \<open>k\<close>-th evaluation
  of \<^verbatim>\<open>datetime.utcnow()\<close> during the call, in seconds; \<open>now_hour\<close>, \<open>now_weekday\<close> and
  \<open>now_month\<close> are the fields of \<^verbatim>\<open>datetime.now()\<close>. \<open>strptime_hour\<close> is the hour that
  \<^verbatim>\<open>datetime.strptime(s, '%H:%M')\<close> parses, \<^const>\<open>None\<close> where it raises.
  \<open>np_polyfit x y\<close> is the slope, the first coefficient that \<^verbatim>\<open>np.polyfit(x, y, 1)\<close>
  returns. The three formatting functions render \<^verbatim>\<open>{x:.1f}\<close>, \<^verbatim>\<open>{x:.2f}\<close> and
  \<^verbatim>\<open>{n:02d}\<close>.
\<close>

record environment =
  geodesic_km :: "coords \<Rightarrow> coords \<Rightarrow> real"
  utcnow :: "nat \<Rightarrow> real"
  now_hour :: int
  now_weekday :: int
  now_month :: int
  strptime_hour :: "string \<Rightarrow> int option"
  np_polyfit :: "real list \<Rightarrow> real list \<Rightarrow> pyfloat"
  format_1f :: "pyfloat \<Rightarrow> string"
  format_2f :: "pyfloat \<Rightarrow> string"
  format_02d :: "int \<Rightarrow> string"

text \<open>
  geopy builds a point from each pair of coordinates and raises \<^verbatim>\<open>ValueError\<close> for a
  latitude outside the range from -90 to 90; a longitude is wrapped into its range.
\<close>

definition geodesic :: "environment \<Rightarrow> coords \<Rightarrow> coords \<Rightarrow> real option" where
  "geodesic env a b =
     (if - 90 \<le> fst a \<and> fst a \<le> 90 \<and> - 90 \<le> fst b \<and> fst b \<le> 90
      then Some (geodesic_km env a b)
      else None)"

text \<open>
  Results are dictionaries. The keys \<^verbatim>\<open>confidence\<close> and \<^verbatim>\<open>risk_score\<close> occur in
  several of them, so each is the single field of a record that the result records
  extend.
\<close>

record confident =
  confidence :: real

record risk_scored =
  risk_score :: real

subsection \<open>Documents of the store\<close>

text \<open>
  The value under \<^verbatim>\<open>createdAt\<close>: a time without zone (a \<^verbatim>\<open>datetime\<close> of the store, or a
  text in ISO format without offset), a time with zone (its wall-clock reading and its
  offset from UTC, both in seconds; a final \<^verbatim>\<open>Z\<close> is the offset 0), or a value that is
  no time, for which \<^verbatim>\<open>fromisoformat\<close> or the subtraction raises. The difference of two
  times raises \<^verbatim>\<open>TypeError\<close> when only one of them has a zone.
\<close>

datatype stamp = Naive real | Aware real real | Unreadable

fun stamp_diff :: "stamp \<Rightarrow> stamp \<Rightarrow> real option" where
  "stamp_diff (Naive a) (Naive b) = Some (a - b)"
| "stamp_diff (Aware a oa) (Aware b ob) = Some ((a - oa) - (b - ob))"
| "stamp_diff x y = None"

text \<open>The hour of a time, \<^const>\<open>None\<close> where reading the value raises.\<close>

definition hour_of :: "real \<Rightarrow> int" where
  "hour_of t = (\<lfloor>t\<rfloor> div 3600) mod 24"

fun stamp_hour :: "stamp \<Rightarrow> int option" where
  "stamp_hour (Naive a) = Some (hour_of a)"
| "stamp_hour (Aware a oa) = Some (hour_of a)"
| "stamp_hour Unreadable = None"

text \<open>
  A location sample: GeoJSON coordinates (longitude first), the time stamp
  \<^verbatim>\<open>createdAt\<close> and the speed in m/s; the last two keys may be missing.
\<close>

record location_sample =
  coordinates :: "real \<times> real"
  createdAt :: "stamp option"
  speed :: "real option"

text \<open>
  An incident: its GeoJSON coordinates, severity and type may be missing, its time
  stamp is read without a default.
\<close>

record incident =
  inc_coordinates :: "(real \<times> real) option"
  inc_severity :: "string option"
  inc_type :: "string option"
  inc_createdAt :: real

text \<open>
  \<^verbatim>\<open>get_area_incident_stats\<close> of the database client returns the number of incidents near a
  point and their count per severity; it handles its own failures and always returns.
\<close>

record area_stats =
  total_incidents :: nat
  severity_distribution :: "(string \<times> nat) list"

record route =
  route_id :: nat
  start_location :: "real \<times> real"
  frequency :: nat

record user_profile =
  common_routes :: "route list"

text \<open>
  The queries of \<^verbatim>\<open>DatabaseClient\<close> that the scoring code calls. Each catches its own
  exceptions, so each is a total function; \<^verbatim>\<open>store_prediction\<close> only writes and does
  not change a result.
\<close>

record database =
  get_user_movement_patterns :: "string \<Rightarrow> nat \<Rightarrow> location_sample list"
  get_area_incident_stats :: "real \<Rightarrow> real \<Rightarrow> pyfloat \<Rightarrow> area_stats"
  get_user_profile :: "string \<Rightarrow> user_profile option"

section \<open>Risk predictor (\<^verbatim>\<open>risk_predictor.py\<close>)\<close>

subsection \<open>Risk level and time-of-day multiplier\<close>

definition get_risk_level :: "real \<Rightarrow> string" where
  "get_risk_level score =
     (if score \<ge> 0.8 then ''critical''
      else if score \<ge> 0.6 then ''high''
      else if score \<ge> 0.4 then ''medium''
      else ''low'')"

definition get_time_risk_multiplier :: "int \<Rightarrow> real" where
  "get_time_risk_multiplier hour =
     (if hour \<ge> 22 \<or> hour \<le> 5 then 1.3
      else if (hour \<ge> 6 \<and> hour \<le> 8) \<or> (hour \<ge> 17 \<and> hour \<le> 19) then 1.1
      else 1.0)"

subsection \<open>Heuristic route risk\<close>

text \<open>The heuristic raises where the distance does.\<close>

definition calculate_default_risk :: "environment \<Rightarrow> coords \<Rightarrow> coords \<Rightarrow> real option" where
  "calculate_default_risk env start_coords end_coords =
     (case geodesic env start_coords end_coords of
        None \<Rightarrow> None
      | Some distance \<Rightarrow>
          let hour = now_hour env;
              distance_risk = min (distance / 100) 0.3;
              time_risk = get_time_risk_multiplier hour * 0.3;
              base_risk = 0.4
          in Some (min (distance_risk + time_risk + base_risk) 1.0))"

subsection \<open>Feature preparation\<close>

text \<open>
  The three draws \<^verbatim>\<open>np.random.exponential(5)\<close>, \<^verbatim>\<open>np.random.exponential(3)\<close> and
  \<^verbatim>\<open>np.random.uniform(0.2, 0.8)\<close> made by one call of \<^verbatim>\<open>prepare_features\<close>.
\<close>

record draws =
  exponential_5 :: real
  exponential_3 :: real
  uniform_02_08 :: real

definition lower_char :: "char \<Rightarrow> char" where
  "lower_char c =
     (if of_char c \<ge> (65::nat) \<and> of_char c \<le> (90::nat) then char_of (of_char c + (32::nat)) else c)"

definition calculate_weather_risk :: "string option \<Rightarrow> real" where
  "calculate_weather_risk weather_conditions =
     (case weather_conditions of
        None \<Rightarrow> 0.3
      | Some w \<Rightarrow>
          if w = [] then 0.3
          else (case map_of
                  [(''clear'', 0.1), (''cloudy'', 0.2), (''rain'', 0.6), (''heavy_rain'', 0.8),
                   (''storm'', 0.9), (''fog'', 0.7), (''snow'', 0.8)] (map lower_char w) of
                  Some r \<Rightarrow> r
                | None \<Rightarrow> 0.3))"

definition estimate_distance_to_service :: "draws \<Rightarrow> string \<Rightarrow> real" where
  "estimate_distance_to_service dr service_type =
     (if service_type = ''hospital'' then min (exponential_5 dr) 20
      else if service_type = ''police'' then min (exponential_3 dr) 15
      else 10)"

definition estimate_population_density :: "draws \<Rightarrow> real" where
  "estimate_population_density dr = uniform_02_08 dr"

definition estimate_average_speed :: "real \<Rightarrow> int \<Rightarrow> real" where
  "estimate_average_speed distance hour =
     (if (hour \<ge> 7 \<and> hour \<le> 9) \<or> (hour \<ge> 17 \<and> hour \<le> 19)
      then max 20 (40 - distance * 2)
      else max 30 (60 - distance))"

text \<open>
  The feature dictionary is read out in the order of \<^verbatim>\<open>feature_columns\<close>, so it is
  modelled by the list of its ten values in that order. A time of day that
  \<^verbatim>\<open>strptime\<close> rejects and a distance that geopy refuses raise inside the \<^verbatim>\<open>try\<close>
  block, and the handler returns 0.5 for every feature.
\<close>

definition prepare_features ::
  "environment \<Rightarrow> database \<Rightarrow> draws \<Rightarrow> coords \<Rightarrow> coords \<Rightarrow>
   string option \<Rightarrow> string option \<Rightarrow> real list" where
  "prepare_features env db dr start_coords end_coords time_of_day
     weather_conditions =
     (case (case time_of_day of
              None \<Rightarrow> Some (now_hour env)
            | Some s \<Rightarrow> strptime_hour env s) of
        None \<Rightarrow> replicate 10 0.5
      | Some hour \<Rightarrow>
          let day_of_week = now_weekday env;
              month = now_month env;
              mid_lat = (fst start_coords + fst end_coords) / 2;
              mid_lng = (snd start_coords + snd end_coords) / 2;
              stats = get_area_incident_stats db mid_lat mid_lng (Fin 2);
              historical_incidents_count = total_incidents stats
          in (case geodesic env start_coords end_coords of
                None \<Rightarrow> replicate 10 0.5
              | Some route_distance \<Rightarrow>
                  let weather_risk_score = calculate_weather_risk weather_conditions;
                      distance_to_hospital = estimate_distance_to_service dr ''hospital'';
                      distance_to_police = estimate_distance_to_service dr ''police'';
                      route_complexity = min (route_distance / 10) 1.0;
                      population_density = estimate_population_density dr;
                      average_speed = estimate_average_speed route_distance hour
                  in [real_of_int hour, real_of_int day_of_week, real_of_int month,
                      real historical_incidents_count, population_density,
                      weather_risk_score, distance_to_hospital, distance_to_police,
                      average_speed, route_complexity]))"

subsection \<open>Route risk\<close>

text \<open>
  A trained regressor is the composition of \<^verbatim>\<open>scaler.transform\<close> and \<^verbatim>\<open>model.predict\<close>;
  \<^const>\<open>None\<close> as its result stands for an exception raised by either. The predictor's
  \<^verbatim>\<open>self.model\<close> is \<^const>\<open>None\<close> while no model has been trained or loaded.

  Without a model the heuristic is returned from inside the \<^verbatim>\<open>try\<close> block; when it
  raises, the handler calls it once more, outside any handler, so that a second
  exception leaves \<^verbatim>\<open>predict_route_risk\<close>. The result \<^const>\<open>None\<close> is that exception.
\<close>

type_synonym regressor = "real list \<Rightarrow> real option"

definition predict_route_risk ::
  "environment \<Rightarrow> database \<Rightarrow> draws \<Rightarrow> regressor option \<Rightarrow>
   coords \<Rightarrow> coords \<Rightarrow> string option \<Rightarrow> string option \<Rightarrow> real option" where
  "predict_route_risk env db dr model start_coords end_coords
     time_of_day weather_conditions =
     (case model of
        None \<Rightarrow>
          (case calculate_default_risk env start_coords end_coords of
             Some risk \<Rightarrow> Some risk
           | None \<Rightarrow> calculate_default_risk env start_coords end_coords)
      | Some predict \<Rightarrow>
          let features = prepare_features env db dr start_coords
                           end_coords time_of_day weather_conditions
          in (case predict features of
                None \<Rightarrow> calculate_default_risk env start_coords end_coords
              | Some predicted \<Rightarrow> Some (max 0 (min 1 predicted))))"

subsection \<open>Area risk\<close>

text \<open>
  The result of the area prediction; its \<^verbatim>\<open>risk_score\<close> is a Python float. The keys
  \<^verbatim>\<open>area_stats\<close> and \<^verbatim>\<open>factors\<close> repeat inputs and intermediate values and are left
  out.
\<close>

record area_risk =
  area_risk_score :: pyfloat
  risk_level :: string

definition severity_weight :: "string \<Rightarrow> real" where
  "severity_weight severity =
     (case map_of [(''critical'', 1.0), (''high'', 0.8), (''medium'', 0.5), (''low'', 0.2)]
             severity of
        Some w \<Rightarrow> w
      | None \<Rightarrow> 0.5)"

text \<open>\<^verbatim>\<open>get_risk_level\<close> on a float: every comparison with NaN is false.\<close>

definition get_risk_level_float :: "pyfloat \<Rightarrow> string" where
  "get_risk_level_float x =
     (case x of
        Fin r \<Rightarrow> get_risk_level r
      | Infty s \<Rightarrow> (if s then ''critical'' else ''low'')
      | NaN \<Rightarrow> ''low'')"

text \<open>
  The radius is a float of the request. Every exception inside the \<^verbatim>\<open>try\<close> block (a
  division by an area of zero, a square too large for a float) ends in the handler,
  which returns the fixed result with score 0.5. The weighted sum of the counts is
  taken exactly.
\<close>

definition predict_area_risk ::
  "environment \<Rightarrow> database \<Rightarrow> real \<Rightarrow> real \<Rightarrow> pyfloat \<Rightarrow> area_risk" where
  "predict_area_risk env db latitude longitude radius =
     (let handler = \<lparr>area_risk_score = Fin 0.5, risk_level = ''medium''\<rparr>
      in case fdiv radius (Fin 1000) of
           None \<Rightarrow> handler
         | Some radius_km \<Rightarrow>
             let stats = get_area_incident_stats db latitude longitude radius_km;
                 weighted_incidents =
                   Fin (\<Sum>(severity, count) \<leftarrow> severity_distribution stats.
                          severity_weight severity * real count)
             in (case fsquare radius_km of
                   None \<Rightarrow> handler
                 | Some squared \<Rightarrow>
                     let area_km2 = fmul squared (fl 3.14159)
                     in (case fdiv weighted_incidents (fmul area_km2 (Fin 30)) of
                           None \<Rightarrow> handler
                         | Some risk_density \<Rightarrow>
                             (case fdiv risk_density (fl 0.1) of
                                None \<Rightarrow> handler
                              | Some scaled \<Rightarrow>
                                  let base_risk = py_min scaled (Fin 1.0);
                                      current_hour = now_hour env;
                                      time_multiplier =
                                        fl (get_time_risk_multiplier current_hour);
                                      final_risk =
                                        py_min (fmul base_risk time_multiplier) (Fin 1.0)
                                  in \<lparr>area_risk_score = final_risk,
                                      risk_level = get_risk_level_float final_risk\<rparr>))))"

section \<open>Functions of numpy and of Python used by the scorers\<close>

text \<open>
  Mean, population variance and standard deviation (\<^verbatim>\<open>ddof = 0\<close>), maximum and the
  percentile with linear interpolation between the two closest ranks. The source guards
  every call of the maximum by a test for the empty list, where Python raises.
\<close>

definition np_mean :: "real list \<Rightarrow> real" where
  "np_mean xs = sum_list xs / real (length xs)"

definition np_var :: "real list \<Rightarrow> real" where
  "np_var xs = np_mean (map (\<lambda>x. (x - np_mean xs) ^ 2) xs)"

definition np_std :: "real list \<Rightarrow> real" where
  "np_std xs = sqrt (np_var xs)"

fun np_max :: "real list \<Rightarrow> real" where
  "np_max (x # xs) = fold max xs x"

definition np_percentile :: "real list \<Rightarrow> real \<Rightarrow> real" where
  "np_percentile xs q =
     (let s = sort xs;
          n = length s;
          pos = q / 100 * real (n - 1);
          lo = nat \<lfloor>pos\<rfloor>;
          hi = min (lo + 1) (n - 1)
      in s ! lo + (pos - real lo) * (s ! hi - s ! lo))"

definition np_radians :: "real \<Rightarrow> real" where
  "np_radians x = x * pi / 180"

definition np_degrees :: "real \<Rightarrow> real" where
  "np_degrees x = x * 180 / pi"

definition np_arctan2 :: "real \<Rightarrow> real \<Rightarrow> real" where
  "np_arctan2 y x =
     (if x > 0 then arctan (y / x)
      else if x < 0 \<and> y \<ge> 0 then arctan (y / x) + pi
      else if x < 0 then arctan (y / x) - pi
      else if y > 0 then pi / 2
      else if y < 0 then - pi / 2
      else 0)"

text \<open>Python's \<^verbatim>\<open>a % b\<close> on floats, for a positive \<open>b\<close>.\<close>

definition py_mod :: "real \<Rightarrow> real \<Rightarrow> real" where
  "py_mod a b = a - b * of_int \<lfloor>a / b\<rfloor>"

text \<open>
  Python's \<^verbatim>\<open>round(x, 2)\<close>: to the nearest multiple of 0.01, a tie going to the even
  multiple.
\<close>

definition round2 :: "real \<Rightarrow> real" where
  "round2 x = of_int (py_round (x * 100)) / 100"

text \<open>
  \<^verbatim>\<open>range(0, stop, step)\<close> for a positive step; \<open>stop\<close> may be negative, and then the
  range is empty.
\<close>

definition py_range0 :: "int \<Rightarrow> nat \<Rightarrow> nat list" where
  "py_range0 stop step = map (\<lambda>k. k * step) [0..<nat ((stop + int step - 1) div int step)]"

text \<open>
  A list comprehension whose element expression may raise: the first exception ends the
  comprehension.
\<close>

fun all_or_raise :: "'a option list \<Rightarrow> 'a list option" where
  "all_or_raise [] = Some []"
| "all_or_raise (None # xs) = None"
| "all_or_raise (Some x # xs) = (case all_or_raise xs of None \<Rightarrow> None | Some ys \<Rightarrow> Some (x # ys))"

section \<open>Anomaly detector (\<^verbatim>\<open>anomaly_detector.py\<close>)\<close>

text \<open>
  The results are dictionaries with the keys \<^verbatim>\<open>is_anomaly\<close>, \<^verbatim>\<open>confidence\<close> and
  \<^verbatim>\<open>reason\<close>. The diagnostic keys that some results carry besides (the features, the
  z-score, the speed in km/h, the time stamp of the answer) do not enter any of the
  three and are left out. Each detector runs inside \<^verbatim>\<open>try\<close>, and its handler catches
  every exception and returns the flag false with confidence 0.0 and the reason
  \<^verbatim>\<open>Detection error\<close>.
\<close>

record detection_result = confident +
  reason :: string

record anomaly_result = detection_result +
  is_anomaly :: bool

definition detection_error :: anomaly_result where
  "detection_error = \<lparr>confidence = 0.0, reason = ''Detection error'', is_anomaly = False\<rparr>"

subsection \<open>Movement features\<close>

text \<open>
  The loop of \<^verbatim>\<open>_extract_movement_features\<close> over consecutive samples. Each round
  computes the distance, which raises for a latitude that geopy refuses, then
  evaluates \<^verbatim>\<open>datetime.utcnow()\<close> twice, as the default of the two \<^verbatim>\<open>get\<close> calls, and
  uses a reading where the sample has no time stamp; \<open>k\<close> counts the readings made so
  far. The difference of the two times raises as \<^const>\<open>stamp_diff\<close> says. The result
  \<^const>\<open>None\<close> is an exception that leaves the function.
\<close>

fun movement_loop ::
  "environment \<Rightarrow> nat \<Rightarrow> location_sample list \<Rightarrow> (real list \<times> real list \<times> real list) option" where
  "movement_loop env k (prev_loc # curr_loc # rest) =
     (let prev_coords = (snd (coordinates prev_loc), fst (coordinates prev_loc));
          curr_coords = (snd (coordinates curr_loc), fst (coordinates curr_loc))
      in case geodesic env prev_coords curr_coords of
           None \<Rightarrow> None
         | Some distance \<Rightarrow>
             let prev_time = (case createdAt prev_loc of
                                Some t \<Rightarrow> t | None \<Rightarrow> Naive (utcnow env k));
                 curr_time = (case createdAt curr_loc of
                                Some t \<Rightarrow> t | None \<Rightarrow> Naive (utcnow env (k + 1)))
             in (case stamp_diff curr_time prev_time of
                   None \<Rightarrow> None
                 | Some time_diff \<Rightarrow>
                     (case movement_loop env (k + 2) (curr_loc # rest) of
                        None \<Rightarrow> None
                      | Some (speeds, distances, time_intervals) \<Rightarrow>
                          Some ((if time_diff > 0 then [distance * 1000 / time_diff] else [])
                                  @ speeds,
                                distance # distances,
                                time_diff # time_intervals))))"
| "movement_loop env k locations = Some ([], [], [])"

definition calculate_bearing :: "real \<times> real \<Rightarrow> real \<times> real \<Rightarrow> real" where
  "calculate_bearing point1 point2 =
     (let lat1 = np_radians (snd point1); lon1 = np_radians (fst point1);
          lat2 = np_radians (snd point2); lon2 = np_radians (fst point2);
          dlon = lon2 - lon1;
          y = sin dlon * cos lat2;
          x = cos lat1 * sin lat2 - sin lat1 * cos lat2 * cos dlon;
          bearing = np_degrees (np_arctan2 y x)
      in py_mod (bearing + 360) 360)"

fun count_direction_changes :: "location_sample list \<Rightarrow> nat" where
  "count_direction_changes (loc0 # loc1 # loc2 # rest) =
     (let bearing1 = calculate_bearing (coordinates loc0) (coordinates loc1);
          bearing2 = calculate_bearing (coordinates loc1) (coordinates loc2);
          angle_diff = \<bar>bearing2 - bearing1\<bar>;
          wrapped = (if angle_diff > 180 then 360 - angle_diff else angle_diff)
      in (if wrapped > 45 then 1 else 0) + count_direction_changes (loc1 # loc2 # rest))"
| "count_direction_changes locations = 0"

text \<open>
  The feature dictionary, as the list of its items in insertion order; the empty list
  is the empty dictionary returned for fewer than two samples.
\<close>

definition extract_movement_features ::
  "environment \<Rightarrow> nat \<Rightarrow> location_sample list \<Rightarrow> (string \<times> real) list option" where
  "extract_movement_features env k locations =
     (if length locations < 2 then Some []
      else
        (case movement_loop env k locations of
           None \<Rightarrow> None
         | Some (speeds, distances, time_intervals) \<Rightarrow>
             Some
               [(''avg_speed'', if speeds \<noteq> [] then np_mean speeds else 0),
                (''max_speed'', if speeds \<noteq> [] then np_max speeds else 0),
                (''speed_variance'', if speeds \<noteq> [] then np_var speeds else 0),
                (''total_distance'', sum_list distances),
                (''avg_time_interval'',
                   if time_intervals \<noteq> [] then np_mean time_intervals else 0),
                (''max_time_gap'', if time_intervals \<noteq> [] then np_max time_intervals else 0),
                (''num_stops'', real (length (filter (\<lambda>v. v < 0.1) speeds))),
                (''direction_changes'', real (count_direction_changes locations))]))"

subsection \<open>Movement anomaly\<close>

text \<open>
  The body shared by the loops of \<^verbatim>\<open>_calculate_movement_anomaly_score\<close> and
  \<^verbatim>\<open>_determine_movement_anomaly_reason\<close>: the z-score of one current feature against
  the historical windows, where the loop computes one.
\<close>

definition feature_z_score ::
  "string \<Rightarrow> real \<Rightarrow> (string \<times> real) list list \<Rightarrow> real option" where
  "feature_z_score feature_name current_value historical_features =
     (if map_of (hd historical_features) feature_name \<noteq> None then
        let historical_values =
              List.map_filter (\<lambda>hf. map_of hf feature_name) historical_features
        in if length historical_values > 1 then
             let mean_val = np_mean historical_values;
                 std_val = np_std historical_values
             in if std_val > 0 then Some \<bar>(current_value - mean_val) / std_val\<bar> else None
           else None
      else None)"

definition calculate_movement_anomaly_score ::
  "(string \<times> real) list \<Rightarrow> (string \<times> real) list list \<Rightarrow> real" where
  "calculate_movement_anomaly_score current_features historical_features =
     (if historical_features = [] then 0.0
      else
        let z_scores =
              List.map_filter (\<lambda>(feature_name, v). feature_z_score feature_name v historical_features)
                current_features
        in if z_scores = [] then 0.0
           else min (np_max z_scores / 3) 1.0)"

definition feature_descriptions :: "(string \<times> string) list" where
  "feature_descriptions =
     [(''avg_speed'', ''unusual average speed''),
      (''max_speed'', ''unusual maximum speed''),
      (''speed_variance'', ''unusual speed variation''),
      (''total_distance'', ''unusual travel distance''),
      (''direction_changes'', ''unusual movement pattern''),
      (''num_stops'', ''unusual number of stops'')]"

definition determine_movement_anomaly_reason ::
  "(string \<times> real) list \<Rightarrow> (string \<times> real) list list \<Rightarrow> string" where
  "determine_movement_anomaly_reason current_features historical_features =
     (if historical_features = [] then ''No historical patterns for comparison''
      else
        let (max_z_score, anomalous_feature) =
              fold (\<lambda>(feature_name, v) (mz, af).
                      case feature_z_score feature_name v historical_features of
                        Some z \<Rightarrow> if z > mz then (z, Some feature_name) else (mz, af)
                      | None \<Rightarrow> (mz, af))
                current_features (0, None)
        in case anomalous_feature of
             Some feature_name \<Rightarrow>
               if feature_name \<noteq> [] then
                 (case map_of feature_descriptions feature_name of
                    Some d \<Rightarrow> d
                  | None \<Rightarrow> ''unusual '' @ feature_name)
               else ''Movement pattern within normal range''
           | None \<Rightarrow> ''Movement pattern within normal range'')"

text \<open>
  The start indices of the historical windows: \<^verbatim>\<open>range(0, H - L + 1, L)\<close> filtered by
  \<^verbatim>\<open>i + L <= H\<close>, for \<open>H\<close> historical and \<open>L\<close> current samples.
\<close>

definition window_starts :: "nat \<Rightarrow> nat \<Rightarrow> nat list" where
  "window_starts H L = filter (\<lambda>i. i + L \<le> H) (py_range0 (int H - int L + 1) L)"

text \<open>
  The features of the current window and of every historical window are extracted
  before the number of windows is tested, and an exception in any extraction ends in
  the handler. The current window is extracted first and each historical window after
  it, so the \<open>j\<close>-th historical window starts after the \<open>2 * (L - 1) * (j + 1)\<close> clock
  readings of the extractions before it.
\<close>

definition detect_movement_anomaly ::
  "environment \<Rightarrow> database \<Rightarrow> string \<Rightarrow> location_sample list \<Rightarrow> anomaly_result" where
  "detect_movement_anomaly env db user_id locations =
     (if length locations < 3 then
        \<lparr>confidence = 0.0, reason = ''Insufficient location data'', is_anomaly = False\<rparr>
      else
        let historical_patterns = get_user_movement_patterns db user_id 30
        in if length historical_patterns < 10 then
             \<lparr>confidence = 0.0, reason = ''Insufficient historical data'', is_anomaly = False\<rparr>
           else
             let L = length locations
             in (case extract_movement_features env 0 locations of
                   None \<Rightarrow> detection_error
                 | Some current_features \<Rightarrow>
                     (case all_or_raise
                             (map (\<lambda>(j, i). extract_movement_features env (2 * (L - 1) * (j + 1))
                                              (take L (drop i historical_patterns)))
                                (enumerate 0 (window_starts (length historical_patterns) L))) of
                        None \<Rightarrow> detection_error
                      | Some historical_features \<Rightarrow>
                          if length historical_features < 5 then
                            \<lparr>confidence = 0.0, reason = ''Insufficient historical patterns'',
                             is_anomaly = False\<rparr>
                          else
                            let anomaly_score =
                                  calculate_movement_anomaly_score current_features
                                    historical_features;
                                reason_text =
                                  determine_movement_anomaly_reason current_features
                                    historical_features
                            in \<lparr>confidence = anomaly_score, reason = reason_text,
                                is_anomaly = anomaly_score > 0.7\<rparr>)))"

subsection \<open>Speed anomaly\<close>







section \<open>Pattern analyzer (\<^verbatim>\<open>pattern_analyzer.py\<close>)\<close>

subsection \<open>Counting dictionaries and slices\<close>

text \<open>
  A \<^verbatim>\<open>defaultdict(int)\<close> filled by \<^verbatim>\<open>d[k] += 1\<close>, as the list of its items in insertion
  order; a key that was never counted reads as 0.
\<close>

fun bump :: "'k \<Rightarrow> ('k \<times> nat) list \<Rightarrow> ('k \<times> nat) list" where
  "bump k [] = [(k, 1)]"
| "bump k ((k', c) # rest) = (if k = k' then (k', c + 1) # rest else (k', c) # bump k rest)"

definition count_keys :: "'k list \<Rightarrow> ('k \<times> nat) list" where
  "count_keys ks = fold bump ks []"




subsection \<open>Forecast\<close>






subsection \<open>Hotspots\<close>

text \<open>
  \<^verbatim>\<open>DBSCAN(eps, min_samples).fit(coordinates).labels_\<close> is a parameter: one label per
  point, -1 for noise. A hotspot's \<^verbatim>\<open>id\<close> is the text \<^verbatim>\<open>hotspot_\<close> followed by the label
  of its cluster; the record keeps the label.
\<close>

type_synonym dbscan = "real \<Rightarrow> nat \<Rightarrow> coords list \<Rightarrow> int list"

record hotspot = risk_scored +
  cluster_id :: int
  center :: coords
  incident_count :: nat
  hotspot_severity_distribution :: "(string \<times> nat) list"
  hotspot_type_distribution :: "(string \<times> nat) list"
  radius_km :: real

record hotspot_report =
  hotspots :: "hotspot list"
  total_hotspots :: nat
  noise_points :: nat

definition calculate_cluster_radius :: "coords list \<Rightarrow> real" where
  "calculate_cluster_radius cluster_points =
     (if length cluster_points < 2 then 0
      else
        let center_lat = np_mean (map fst cluster_points);
            center_lng = np_mean (map snd cluster_points);
            distances = map (\<lambda>p. sqrt ((fst p - center_lat) ^ 2 + (snd p - center_lng) ^ 2))
                          cluster_points;
            radius_degrees = np_percentile distances 90;
            radius = radius_degrees * 111.32
        in round2 radius)"

text \<open>The statistics of one cluster, the body of the loop over the labels.\<close>

definition cluster_hotspot :: "coords list \<Rightarrow> incident list \<Rightarrow> int list \<Rightarrow> int \<Rightarrow> hotspot" where
  "cluster_hotspot points incident_data labels cid =
     (let cluster_points = map fst (filter (\<lambda>(p, l). l = cid) (zip points labels));
          cluster_incidents = map fst (filter (\<lambda>(i, l). l = cid) (zip incident_data labels));
          center_lat = np_mean (map fst cluster_points);
          center_lng = np_mean (map snd cluster_points);
          n = length cluster_incidents;
          severity_counts =
            count_keys (map (\<lambda>i. case inc_severity i of Some s \<Rightarrow> s | None \<Rightarrow> ''unknown'')
                          cluster_incidents);
          type_counts =
            count_keys (map (\<lambda>i. case inc_type i of Some t \<Rightarrow> t | None \<Rightarrow> ''unknown'')
                          cluster_incidents);
          score = (\<Sum>(sev, count) \<leftarrow> severity_counts. severity_weight sev * real count) / real n
      in \<lparr>risk_score = round2 score,
          cluster_id = cid,
          center = (center_lat, center_lng),
          incident_count = n,
          hotspot_severity_distribution = severity_counts,
          hotspot_type_distribution = type_counts,
          radius_km = calculate_cluster_radius cluster_points\<rparr>)"

text \<open>
  The points of the incidents that carry coordinates, as \<open>(latitude, longitude)\<close>.
  \<^verbatim>\<open>set(clustering.labels_)\<close> is walked in the order of first occurrence of the labels;
  Python leaves the order open, and it decides only the order among hotspots of equal
  score. The sort is \<^verbatim>\<open>list.sort(key, reverse=True)\<close>, stable and descending.
\<close>

definition located_points :: "incident list \<Rightarrow> coords list" where
  "located_points incidents =
     map (\<lambda>i. case inc_coordinates i of Some c \<Rightarrow> (snd c, fst c) | None \<Rightarrow> (0, 0))
       (filter (\<lambda>i. inc_coordinates i \<noteq> None) incidents)"

definition identify_hotspots :: "dbscan \<Rightarrow> incident list \<Rightarrow> string + hotspot_report" where
  "identify_hotspots fit_labels incidents =
     (if length incidents < 10 then Inl ''Insufficient data for hotspot analysis''
      else
        let incident_data = filter (\<lambda>i. inc_coordinates i \<noteq> None) incidents;
            points = located_points incidents
        in if length points < 10 then Inl ''Insufficient location data''
           else
             let labels = fit_labels 0.005 5 points;
                 found = map (cluster_hotspot points incident_data labels)
                           (filter (\<lambda>cid. cid \<noteq> - 1) (remdups labels));
                 ranked = sort_key (\<lambda>h. - risk_score h) found
             in Inr \<lparr>hotspots = take 10 ranked,
                     total_hotspots = length ranked,
                     noise_points = length (filter (\<lambda>l. l = - 1) labels)\<rparr>)"

section \<open>Notions of the specification\<close>

text \<open>A score or confidence is admissible when it is a number between 0 and 1.\<close>

definition in_unit :: "pyfloat \<Rightarrow> bool" where
  "in_unit x = (case x of Fin r \<Rightarrow> 0 \<le> r \<and> r \<le> 1 | Infty s \<Rightarrow> False | NaN \<Rightarrow> False)"

text \<open>
  The slope of the least-squares line through the points \<open>(xs ! i, ys ! i)\<close>, with the
  intercept that goes with it, and the sum of the squared residuals of the line with
  intercept \<open>c\<close> and slope \<open>m\<close>.
\<close>

definition polyfit_slope :: "real list \<Rightarrow> real list \<Rightarrow> real" where
  "polyfit_slope xs ys =
     (let n = real (length xs);
          sx = sum_list xs;
          sy = sum_list ys;
          sxy = sum_list (map2 (*) xs ys);
          sxx = sum_list (map (\<lambda>x. x * x) xs)
      in (n * sxy - sx * sy) / (n * sxx - sx * sx))"

definition polyfit_intercept :: "real list \<Rightarrow> real list \<Rightarrow> real" where
  "polyfit_intercept xs ys =
     (sum_list ys - polyfit_slope xs ys * sum_list xs) / real (length xs)"

definition squared_error :: "real \<Rightarrow> real \<Rightarrow> real list \<Rightarrow> real list \<Rightarrow> real" where
  "squared_error c m xs ys = (\<Sum>(x, y) \<leftarrow> zip xs ys. (y - (c + m * x)) ^ 2)"


text \<open>
  A sample that the movement features can be extracted from: geopy accepts its
  latitude, and its time stamp is missing or a time without zone.
\<close>

definition plain_sample :: "location_sample \<Rightarrow> bool" where
  "plain_sample s =
     (- 90 \<le> snd (coordinates s) \<and> snd (coordinates s) \<le> 90 \<and>
      (case createdAt s of
         None \<Rightarrow> True
       | Some (Naive t) \<Rightarrow> True
       | Some (Aware t z) \<Rightarrow> False
       | Some Unreadable \<Rightarrow> False))"

section \<open>Example data\<close>

text \<open>
  A concrete environment: distances are 111.32 km per degree of the sum of the
  coordinate differences, the clock shows noon on a Wednesday in November and advances
  by one second per reading, the time parser accepts nothing, the fitted slope is the
  float nearest to the least-squares slope and numbers are rendered as a question mark.
  The example store returns the same samples for every user.
\<close>

definition example_env :: environment where
  "example_env =
     \<lparr>geodesic_km = (\<lambda>a b. 111.32 * (\<bar>fst a - fst b\<bar> + \<bar>snd a - snd b\<bar>)),
      utcnow = (\<lambda>k. 1000 + real k),
      now_hour = 12, now_weekday = 2, now_month = 11,
      strptime_hour = (\<lambda>s. None),
      np_polyfit = (\<lambda>xs ys. fl (polyfit_slope xs ys)),
      format_1f = (\<lambda>x. ''?''), format_2f = (\<lambda>x. ''?''), format_02d = (\<lambda>n. ''?'')\<rparr>"

definition example_stats :: "real \<Rightarrow> real \<Rightarrow> pyfloat \<Rightarrow> area_stats" where
  "example_stats latitude longitude radius =
     \<lparr>total_incidents = 3, severity_distribution = [(''high'', 2), (''unknown'', 1)]\<rparr>"

definition example_db :: "location_sample list \<Rightarrow> database" where
  "example_db history =
     \<lparr>get_user_movement_patterns = (\<lambda>user_id days. history),
      get_area_incident_stats = example_stats,
      get_user_profile = (\<lambda>user_id. None)\<rparr>"

definition example_draws :: draws where
  "example_draws = \<lparr>exponential_5 = 4, exponential_3 = 2, uniform_02_08 = 0.5\<rparr>"

text \<open>
  A sample without time stamp, samples with one, a sample whose latitude geopy refuses,
  a sample stamped with the zone UTC, and a clock whose readings lie further apart with
  every reading.
\<close>

definition untimed_sample :: location_sample where
  "untimed_sample = \<lparr>coordinates = (77, 28.5), createdAt = None, speed = None\<rparr>"

definition sample_at :: "real \<Rightarrow> real \<Rightarrow> real \<Rightarrow> location_sample" where
  "sample_at lng lat t = \<lparr>coordinates = (lng, lat), createdAt = Some (Naive t), speed = None\<rparr>"

definition polar_sample :: location_sample where
  "polar_sample = \<lparr>coordinates = (77, 91), createdAt = None, speed = None\<rparr>"

definition zulu_sample :: location_sample where
  "zulu_sample = \<lparr>coordinates = (77, 28.5), createdAt = Some (Aware 0 0), speed = None\<rparr>"

definition square_clock :: "nat \<Rightarrow> real" where
  "square_clock k = real (k * k)"




text \<open>
  Incidents for the hotspots: five of low severity at one point, five critical ones at
  another and a single one far from both; the example clustering labels the two
  groups 0 and 1 and everything else as noise.
\<close>

definition incident_at :: "real \<Rightarrow> real \<Rightarrow> string \<Rightarrow> incident" where
  "incident_at lng lat sev =
     \<lparr>inc_coordinates = Some (lng, lat), inc_severity = Some sev, inc_type = Some ''panic'',
      inc_createdAt = 0\<rparr>"

definition example_incidents :: "incident list" where
  "example_incidents =
     replicate 5 (incident_at 77 28 ''low'') @ [incident_at 80 40 ''high'']
       @ replicate 5 (incident_at 78 29 ''critical'')"

definition example_fit :: dbscan where
  "example_fit eps min_samples ps =
     map (\<lambda>p. if p = (28, 77) then 0 else if p = (29, 78) then 1 else - 1) ps"

section \<open>Properties of the float arithmetic\<close>

lemma bit_length_less: "n < 2 ^ k \<Longrightarrow> bit_length n \<le> k"
proof (induction k arbitrary: n)
  case 0
  then show ?case using bit_length.simps [of n] by simp
next
  case (Suc k)
  show ?case
  proof (cases "n = 0")
    case True
    then show ?thesis using bit_length.simps [of n] by simp
  next
    case False
    have "n div 2 < 2 ^ k" using Suc.prems by simp
    then have "bit_length (n div 2) \<le> k" by (rule Suc.IH)
    then show ?thesis using False bit_length.simps [of n] by simp
  qed
qed

lemma bit_length_ge: "2 ^ k \<le> n \<Longrightarrow> k < bit_length n"
proof (induction k arbitrary: n)
  case 0
  then have "n \<noteq> 0" by simp
  then show ?case using bit_length.simps [of n] by simp
next
  case (Suc k)
  have "(0::nat) < 2 ^ Suc k" by simp
  then have n0: "n \<noteq> 0" using Suc.prems by linarith
  have "2 ^ k \<le> n div 2" using Suc.prems by simp
  then have "k < bit_length (n div 2)" by (rule Suc.IH)
  then show ?case using n0 bit_length.simps [of n] by simp
qed

lemma bit_length_eq: "2 ^ k \<le> n \<Longrightarrow> n < 2 ^ Suc k \<Longrightarrow> bit_length n = Suc k"
  using bit_length_less [of n "Suc k"] bit_length_ge [of k n] by simp

lemma ilog2_ge1:
  assumes "2 ^ k \<le> x" and "x < 2 ^ Suc k"
  shows "ilog2 x = int k"
proof -
  have one: "(1::real) \<le> 2 ^ k" by simp
  then have x1: "1 \<le> x" using assms(1) by linarith
  have lo: "(2::int) ^ k \<le> \<lfloor>x\<rfloor>" using assms(1) by (simp add: le_floor_iff)
  have hi: "\<lfloor>x\<rfloor> < (2::int) ^ Suc k" using assms(2) by (simp add: floor_less_iff)
  have nn: "0 \<le> \<lfloor>x\<rfloor>" using x1 by simp
  have "int (2 ^ k) \<le> \<lfloor>x\<rfloor>" using lo by simp
  then have lo': "2 ^ k \<le> nat \<lfloor>x\<rfloor>" using nn by linarith
  have "\<lfloor>x\<rfloor> < int (2 ^ Suc k)" using hi by simp
  then have hi': "nat \<lfloor>x\<rfloor> < 2 ^ Suc k" using nn by linarith
  have "bit_length (nat \<lfloor>x\<rfloor>) = Suc k" using lo' hi' by (rule bit_length_eq)
  then show ?thesis using x1 by (simp add: ilog2_def)
qed

lemma ilog2_lt1:
  assumes "1 / 2 ^ Suc j \<le> x" and "x < 1 / 2 ^ j"
  shows "ilog2 x = - int (Suc j)"
proof -
  have xpos: "0 < x"
  proof -
    have "(0::real) < 1 / 2 ^ Suc j" by simp
    then show ?thesis using assms(1) by linarith
  qed
  have "(1::real) / 2 ^ j \<le> 1" by (simp add: divide_le_eq)
  then have xlt1: "x < 1" using assms(2) by linarith
  have up: "1 / x \<le> 2 ^ Suc j"
  proof -
    have "1 \<le> x * 2 ^ Suc j" using assms(1) by (simp add: divide_le_eq)
    then show ?thesis using xpos by (simp add: divide_le_eq mult.commute)
  qed
  have dn: "2 ^ j < 1 / x"
  proof -
    have "x * 2 ^ j < 1" using assms(2) by (simp add: less_divide_eq)
    then show ?thesis using xpos by (simp add: less_divide_eq mult.commute)
  qed
  have c_hi: "\<lceil>1 / x\<rceil> \<le> (2::int) ^ Suc j" using up by (simp add: ceiling_le_iff)
  have c_lo: "(2::int) ^ j < \<lceil>1 / x\<rceil>" using dn by (simp add: less_ceiling_iff)
  have pos: "0 \<le> \<lceil>1 / x\<rceil> - 1" using c_lo by (smt (verit) zero_le_power)
  have "int (2 ^ j) \<le> \<lceil>1 / x\<rceil> - 1" using c_lo by simp
  then have lo': "2 ^ j \<le> nat (\<lceil>1 / x\<rceil> - 1)" using pos by linarith
  have "\<lceil>1 / x\<rceil> - 1 < int (2 ^ Suc j)" using c_hi by simp
  then have hi': "nat (\<lceil>1 / x\<rceil> - 1) < 2 ^ Suc j" using pos by linarith
  have "bit_length (nat (\<lceil>1 / x\<rceil> - 1)) = Suc j" using lo' hi' by (rule bit_length_eq)
  then show ?thesis using xlt1 by (simp add: ilog2_def)
qed

lemma py_round_near: "\<bar>of_int (py_round y) - y\<bar> \<le> 1 / 2"
  by (auto simp: py_round_def Let_def)






lemma fl_scaled:
  assumes il: "max (ilog2 \<bar>x\<bar>) (- 1022) - 52 = - int m" and x0: "x \<noteq> 0"
    and small: "\<bar>x\<bar> < 2 ^ 1000"
  shows "fl x = Fin (real_of_int (py_round (x * 2 ^ m)) / 2 ^ m)"
proof -
  have q: "pow2 (- int m) = 1 / 2 ^ m"
    by (cases "m = 0") (simp_all add: pow2_def)
  define n where "n = py_round (x * 2 ^ m)"
  have near: "\<bar>real_of_int n - x * 2 ^ m\<bar> \<le> 1 / 2"
    unfolding n_def by (rule py_round_near)
  have "\<bar>real_of_int n / 2 ^ m - x\<bar> = \<bar>(real_of_int n - x * 2 ^ m) / 2 ^ m\<bar>"
    by (simp add: field_simps)
  also have "\<dots> = \<bar>real_of_int n - x * 2 ^ m\<bar> / 2 ^ m" by (simp add: abs_divide)
  also have "\<dots> \<le> (1 / 2) / 2 ^ m" using near by (intro divide_right_mono) simp_all
  also have "\<dots> \<le> 1"
  proof -
    have "(1::real) \<le> 2 ^ m" by simp
    then have "(1::real) / 2 \<le> 1 * 2 ^ m" by linarith
    then show ?thesis by (simp only: pos_divide_le_eq zero_less_power zero_less_numeral)
  qed
  finally have "\<bar>real_of_int n / 2 ^ m - x\<bar> \<le> 1" .
  then have "\<bar>real_of_int n / 2 ^ m\<bar> \<le> \<bar>x\<bar> + 1" by linarith
  also have "\<dots> < 2 ^ 1000 + 1" using small by simp
  also have "\<dots> \<le> (2::real) ^ 1024" by simp
  finally have fin: "\<not> \<bar>real_of_int n / 2 ^ m\<bar> \<ge> 2 ^ 1024" by simp
  show ?thesis
    using x0 fin unfolding fl_def Let_def il q
    by (simp add: n_def)
qed

lemma fl_normal:
  assumes "2 ^ k \<le> \<bar>x\<bar>" and "\<bar>x\<bar> < 2 ^ Suc k" and "k + m = 52"
  shows "fl x = Fin (real_of_int (py_round (x * 2 ^ m)) / 2 ^ m)"
proof (rule fl_scaled)
  have "ilog2 \<bar>x\<bar> = int k" using assms(1,2) by (rule ilog2_ge1)
  then show "max (ilog2 \<bar>x\<bar>) (- 1022) - 52 = - int m" using assms(3) by simp
  have "(0::real) < 2 ^ k" by simp
  then have "0 < \<bar>x\<bar>" using assms(1) by linarith
  then show "x \<noteq> 0" by simp
  have "(2::real) ^ Suc k \<le> 2 ^ 1000" using assms(3) by (intro power_increasing) simp_all
  then show "\<bar>x\<bar> < 2 ^ 1000" using assms(2) by linarith
qed

lemma fl_fraction:
  assumes "1 / 2 ^ Suc j \<le> \<bar>x\<bar>" and "\<bar>x\<bar> < 1 / 2 ^ j" and "j < 1000" and "m = j + 53"
  shows "fl x = Fin (real_of_int (py_round (x * 2 ^ m)) / 2 ^ m)"
proof (rule fl_scaled)
  have "ilog2 \<bar>x\<bar> = - int (Suc j)" using assms(1,2) by (rule ilog2_lt1)
  then show "max (ilog2 \<bar>x\<bar>) (- 1022) - 52 = - int m" using assms(3,4) by simp
  have "(0::real) < 1 / 2 ^ Suc j" by simp
  then have "0 < \<bar>x\<bar>" using assms(1) by linarith
  then show "x \<noteq> 0" by simp
  have "(1::real) / 2 ^ j \<le> 1" by (simp add: divide_le_eq)
  then have "\<bar>x\<bar> < 1" using assms(2) by linarith
  then show "\<bar>x\<bar> < 2 ^ 1000" by (simp add: less_le_trans)
qed


lemma fl_13: "fl 1.3 = Fin (5854679515581645 / 2 ^ 52)"
  using fl_normal [of 0 "1.3" 52] by (simp add: py_round_def)

lemma fl_01: "fl 0.1 = Fin (3602879701896397 / 2 ^ 55)"
  using fl_fraction [of 3 "0.1" 56] by (simp add: py_round_def)

lemma fl_314159: "fl 3.14159 = Fin (3537115888337719 / 2 ^ 50)"
  using fl_normal [of 1 "3.14159" 51] by (simp add: py_round_def)

section \<open>Properties of the risk predictor\<close>

lemma time_risk_multiplier_bounds:
  "1 \<le> get_time_risk_multiplier hour \<and> get_time_risk_multiplier hour \<le> 1.3"
  by (simp add: get_time_risk_multiplier_def)

lemma calculate_default_risk_ge:
  assumes "0 \<le> geodesic_km env s e"
    and "calculate_default_risk env s e = Some r"
  shows "0.7 \<le> r"
proof -
  have m: "1 \<le> get_time_risk_multiplier (now_hour env)"
    using time_risk_multiplier_bounds by blast
  have d: "0 \<le> min (geodesic_km env s e / 100) 0.3"
    using assms(1) by simp
  have "r = min (min (geodesic_km env s e / 100) 0.3
                   + get_time_risk_multiplier (now_hour env) * 0.3 + 0.4) 1"
    using assms(2)
    by (auto simp: calculate_default_risk_def geodesic_def Let_def split: if_splits)
  then show ?thesis
    using m d by simp
qed

lemma predict_route_risk_untrained_eq:
  "predict_route_risk env db dr None s e time_of_day weather = calculate_default_risk env s e"
  by (simp add: predict_route_risk_def split: option.splits)

text \<open>
  Claim C1. The area risk is the one score of the service that can leave the interval
  from 0 to 1: for a radius that is NaN, which the JSON body of a request can carry,
  every intermediate float is NaN, neither \<^verbatim>\<open>min\<close> replaces it because NaN is the first
  argument and no comparison with it holds, and the result carries the score NaN with
  the level low, whatever the store and the clock are.
\<close>

theorem predict_area_risk_nan:
  "predict_area_risk env db latitude longitude NaN =
     \<lparr>area_risk_score = NaN, risk_level = ''low''\<rparr> \<and>
   \<not> in_unit (area_risk_score (predict_area_risk env db latitude longitude NaN))"
  by (simp add: predict_area_risk_def Let_def fl_01 fl_314159 py_min_def
      get_risk_level_float_def in_unit_def)

text \<open>
  Claim C2, as amended. The risk level is a step function of the score: scores from 0.8
  are critical, scores from 0.6 below 0.8 are high, scores from 0.4 below 0.6 are medium
  and every score below 0.4 is low. So 0.79 is high, 0.80 is critical, 0.40 is medium
  and 0.39, lying below the boundary 0.4, is low.
\<close>

theorem get_risk_level_step:
  "(0.8 \<le> s \<longrightarrow> get_risk_level s = ''critical'') \<and>
   (0.6 \<le> s \<and> s < 0.8 \<longrightarrow> get_risk_level s = ''high'') \<and>
   (0.4 \<le> s \<and> s < 0.6 \<longrightarrow> get_risk_level s = ''medium'') \<and>
   (s < 0.4 \<longrightarrow> get_risk_level s = ''low'') \<and>
   get_risk_level 0.79 = ''high'' \<and> get_risk_level 0.80 = ''critical'' \<and>
   get_risk_level 0.40 = ''medium'' \<and> get_risk_level 0.39 = ''low''"
  by (simp add: get_risk_level_def)

theorem get_risk_level_step_witness:
  "get_risk_level 0.95 = ''critical'' \<and> get_risk_level 0.6 = ''high'' \<and>
   get_risk_level 0.5 = ''medium'' \<and> get_risk_level 0 = ''low''"
  using get_risk_level_step [of "0.95"] get_risk_level_step [of "0.6"]
    get_risk_level_step [of "0.5"] get_risk_level_step [of 0]
  by simp

text \<open>
  Claim C2 as stated says that the score 0.39 yields the level medium. The code answers
  low.
\<close>

theorem get_risk_level_039_counterexample: "get_risk_level 0.39 \<noteq> ''medium''"
  by (simp add: get_risk_level_def)




text \<open>
  Claim C9. With no trained regressor and a distance that is not negative, every value
  that the route-risk prediction returns is at least 0.7, so its risk level is high or
  critical; and a value is returned whenever both latitudes lie between -90 and 90.
\<close>

theorem untrained_route_risk_high_or_critical:
  assumes "0 \<le> geodesic_km env start_coords end_coords"
  shows "(predict_route_risk env db dr None start_coords end_coords time_of_day weather = Some r
            \<longrightarrow> 0.7 \<le> r \<and> (get_risk_level r = ''high'' \<or> get_risk_level r = ''critical'')) \<and>
         (- 90 \<le> fst start_coords \<and> fst start_coords \<le> 90 \<and>
          - 90 \<le> fst end_coords \<and> fst end_coords \<le> 90 \<longrightarrow>
            (\<exists>v. predict_route_risk env db dr None start_coords end_coords time_of_day weather
                   = Some v))"
proof (intro conjI impI)
  assume "predict_route_risk env db dr None start_coords end_coords time_of_day weather = Some r"
  then have "calculate_default_risk env start_coords end_coords = Some r"
    by (simp add: predict_route_risk_untrained_eq)
  with assms show "0.7 \<le> r" by (rule calculate_default_risk_ge)
  then show "get_risk_level r = ''high'' \<or> get_risk_level r = ''critical''"
    by (simp add: get_risk_level_def)
next
  assume "- 90 \<le> fst start_coords \<and> fst start_coords \<le> 90 \<and>
          - 90 \<le> fst end_coords \<and> fst end_coords \<le> 90"
  then show "\<exists>v. predict_route_risk env db dr None start_coords end_coords time_of_day weather
                   = Some v"
    by (simp add: predict_route_risk_untrained_eq calculate_default_risk_def geodesic_def Let_def)
qed

theorem untrained_route_risk_high_or_critical_witness:
  "0 \<le> geodesic_km example_env (0, 0) (0, 0) \<and>
   predict_route_risk example_env (example_db []) example_draws None (0, 0) (0, 0) None None
     = Some 0.7 \<and>
   get_risk_level 0.7 = ''high''"
  using untrained_route_risk_high_or_critical [of example_env "(0, 0)" "(0, 0)" "example_db []"
      example_draws None None "0.7"]
  by (simp add: example_env_def predict_route_risk_def calculate_default_risk_def geodesic_def
      get_time_risk_multiplier_def get_risk_level_def)

section \<open>Properties of the anomaly detector\<close>

subsection \<open>Speed anomaly with little history\<close>







subsection \<open>Movement anomaly with too little data\<close>

lemma py_range0_windows:
  "py_range0 (int H - int L + 1) L = map (\<lambda>k. k * L) [0..<H div L]"
proof -
  have "(int H - int L + 1 + int L - 1) div int L = int (H div L)"
    by (simp add: zdiv_int)
  then show ?thesis by (simp add: py_range0_def)
qed

lemma window_starts_eq:
  assumes "0 < L"
  shows "window_starts H L = map (\<lambda>k. k * L) [0..<H div L]"
proof -
  have "\<And>k. k < H div L \<Longrightarrow> k * L + L \<le> H"
  proof -
    fix k assume "k < H div L"
    then have "Suc k \<le> H div L" by simp
    then have "Suc k * L \<le> (H div L) * L" by (rule mult_le_mono1)
    also have "\<dots> \<le> H" by simp
    finally show "k * L + L \<le> H" by (simp add: add.commute)
  qed
  then have "filter (\<lambda>i. i + L \<le> H) (map (\<lambda>k. k * L) [0..<H div L])
               = map (\<lambda>k. k * L) [0..<H div L]"
    by (simp add: filter_map o_def)
  then show ?thesis by (simp add: window_starts_def py_range0_windows)
qed

lemma length_window_starts: "0 < L \<Longrightarrow> length (window_starts H L) = H div L"
  by (simp add: window_starts_eq)

lemma all_or_raise_length: "all_or_raise xs = Some ys \<Longrightarrow> length ys = length xs"
proof (induction xs arbitrary: ys)
  case Nil
  then show ?case by simp
next
  case (Cons x xs)
  then show ?case by (cases x) (auto split: option.splits)
qed

lemma all_or_raise_some:
  assumes "list_all (\<lambda>x. x \<noteq> None) xs"
  shows "\<exists>ys. all_or_raise xs = Some ys"
  using assms
proof (induction xs)
  case Nil
  then show ?case by simp
next
  case (Cons x xs)
  then show ?case by (cases x) auto
qed

lemma movement_loop_plain:
  assumes "list_all plain_sample locations"
  shows "\<exists>r. movement_loop env k locations = Some r"
  using assms
proof (induction env k locations rule: movement_loop.induct)
  case (1 env k prev_loc curr_loc rest)
  from "1.prems" have p: "plain_sample prev_loc" and c: "plain_sample curr_loc"
    and r: "list_all plain_sample (curr_loc # rest)"
    by simp_all
  obtain distance where g: "geodesic env (snd (coordinates prev_loc), fst (coordinates prev_loc))
                              (snd (coordinates curr_loc), fst (coordinates curr_loc))
                            = Some distance"
    using p c by (simp add: geodesic_def plain_sample_def)
  obtain tp where tp: "(case createdAt prev_loc of Some t \<Rightarrow> t | None \<Rightarrow> Naive (utcnow env k))
                         = Naive tp"
    using p by (auto simp: plain_sample_def split: option.splits stamp.splits)
  obtain tc where tc: "(case createdAt curr_loc of Some t \<Rightarrow> t | None \<Rightarrow> Naive (utcnow env (k + 1)))
                         = Naive tc"
    using c by (auto simp: plain_sample_def split: option.splits stamp.splits)
  have "\<exists>r. movement_loop env (k + 2) (curr_loc # rest) = Some r"
  proof (rule "1.IH" [OF refl refl g refl refl])
    show "stamp_diff
            (case createdAt curr_loc of Some t \<Rightarrow> t | None \<Rightarrow> Naive (utcnow env (k + 1)))
            (case createdAt prev_loc of Some t \<Rightarrow> t | None \<Rightarrow> Naive (utcnow env k))
          = Some (tc - tp)"
      by (simp add: tp tc)
    show "list_all plain_sample (curr_loc # rest)" by (rule r)
  qed
  then obtain r' where "movement_loop env (k + 2) (curr_loc # rest) = Some r'" by blast
  then show ?case
    using g tp tc by (simp add: Let_def split: prod.splits)
qed simp_all

lemma extract_movement_features_plain:
  assumes "list_all plain_sample locations"
  shows "extract_movement_features env k locations \<noteq> None"
proof -
  obtain r where "movement_loop env k locations = Some r"
    using movement_loop_plain [OF assms] by blast
  then show ?thesis
    by (simp add: extract_movement_features_def split: prod.splits)
qed

lemma movement_loop_refused:
  assumes "\<exists>s \<in> set locations. snd (coordinates s) < - 90 \<or> 90 < snd (coordinates s)"
    and "2 \<le> length locations"
  shows "movement_loop env k locations = None"
  using assms
proof (induction env k locations rule: movement_loop.induct)
  case (1 env k prev_loc curr_loc rest)
  show ?case
  proof (cases "geodesic env (snd (coordinates prev_loc), fst (coordinates prev_loc))
                  (snd (coordinates curr_loc), fst (coordinates curr_loc))")
    case None
    then show ?thesis by (simp add: Let_def)
  next
    case (Some distance)
    then have ok: "\<not> (snd (coordinates prev_loc) < - 90 \<or> 90 < snd (coordinates prev_loc))"
      "\<not> (snd (coordinates curr_loc) < - 90 \<or> 90 < snd (coordinates curr_loc))"
      by (auto simp: geodesic_def split: if_splits)
    with "1.prems"(1) obtain s where s: "s \<in> set rest"
      "snd (coordinates s) < - 90 \<or> 90 < snd (coordinates s)"
      by auto
    then have len: "2 \<le> length (curr_loc # rest)" by (cases rest) auto
    have bad: "\<exists>s \<in> set (curr_loc # rest). snd (coordinates s) < - 90 \<or> 90 < snd (coordinates s)"
      using s by auto
    show ?thesis
    proof (cases "stamp_diff
                    (case createdAt curr_loc of Some t \<Rightarrow> t | None \<Rightarrow> Naive (utcnow env (k + 1)))
                    (case createdAt prev_loc of Some t \<Rightarrow> t | None \<Rightarrow> Naive (utcnow env k))")
      case None
      then show ?thesis using Some by (simp add: Let_def)
    next
      case (Some time_diff)
      have "movement_loop env (k + 2) (curr_loc # rest) = None"
        using \<open>geodesic env _ _ = Some distance\<close> Some bad len by (intro "1.IH") simp_all
      then show ?thesis using \<open>geodesic env _ _ = Some distance\<close> Some by (simp add: Let_def)
    qed
  qed
qed simp_all

lemma movement_error:
  assumes "3 \<le> length locations"
    and "10 \<le> length (get_user_movement_patterns db user_id 30)"
    and "extract_movement_features env 0 locations = None"
  shows "detect_movement_anomaly env db user_id locations =
           \<lparr>confidence = 0, reason = ''Detection error'', is_anomaly = False\<rparr>"
  using assms by (simp add: detect_movement_anomaly_def Let_def detection_error_def)

text \<open>
  Claim C5. With fewer than 3 current samples, and likewise with fewer than 10
  historical samples, the movement test answers with a result that is no anomaly, has
  confidence 0.0 and a reason that is not empty.
\<close>

theorem movement_insufficient_data:
  "(length locations < 3 \<or> length (get_user_movement_patterns db user_id 30) < 10) \<longrightarrow>
     \<not> is_anomaly (detect_movement_anomaly env db user_id locations) \<and>
     confidence (detect_movement_anomaly env db user_id locations) = 0.0 \<and>
     reason (detect_movement_anomaly env db user_id locations) \<noteq> []"
  by (simp add: detect_movement_anomaly_def Let_def)

theorem movement_insufficient_data_witness:
  "detect_movement_anomaly example_env (example_db []) ''u1'' [untimed_sample, untimed_sample]
     = \<lparr>confidence = 0, reason = ''Insufficient location data'', is_anomaly = False\<rparr> \<and>
   detect_movement_anomaly example_env (example_db (replicate 9 untimed_sample)) ''u1''
       (replicate 3 untimed_sample)
     = \<lparr>confidence = 0, reason = ''Insufficient historical data'', is_anomaly = False\<rparr>"
  using movement_insufficient_data [of "[untimed_sample, untimed_sample]" "example_db []" "''u1''"
      example_env]
    movement_insufficient_data [of "replicate 3 untimed_sample"
      "example_db (replicate 9 untimed_sample)" "''u1''" example_env]
  by (simp add: detect_movement_anomaly_def example_db_def)

lemma movement_windows_cases:
  assumes "3 \<le> length locations"
    and "10 \<le> length (get_user_movement_patterns db user_id 30)"
    and "length (window_starts (length (get_user_movement_patterns db user_id 30))
           (length locations)) < 5"
  shows "detect_movement_anomaly env db user_id locations =
           (case extract_movement_features env 0 locations of
              None \<Rightarrow> detection_error
            | Some current_features \<Rightarrow>
                (case all_or_raise
                        (map (\<lambda>(j, i). extract_movement_features env
                                         (2 * (length locations - 1) * (j + 1))
                                         (take (length locations)
                                            (drop i (get_user_movement_patterns db user_id 30))))
                           (enumerate 0
                              (window_starts (length (get_user_movement_patterns db user_id 30))
                                 (length locations)))) of
                   None \<Rightarrow> detection_error
                 | Some historical_features \<Rightarrow>
                     \<lparr>confidence = 0.0, reason = ''Insufficient historical patterns'',
                      is_anomaly = False\<rparr>))"
proof -
  have "\<And>hf. all_or_raise
                 (map (\<lambda>(j, i). extract_movement_features env
                                  (2 * (length locations - 1) * (j + 1))
                                  (take (length locations)
                                     (drop i (get_user_movement_patterns db user_id 30))))
                    (enumerate 0
                       (window_starts (length (get_user_movement_patterns db user_id 30))
                          (length locations)))) = Some hf \<Longrightarrow> length hf < 5"
    using assms(3) by (auto dest: all_or_raise_length)
  then show ?thesis
    using assms(1,2)
    by (auto simp: detect_movement_anomaly_def Let_def split: option.splits)
qed

text \<open>
  Claim C10, as amended. With at least 3 current and at least 10 historical samples
  that give fewer than 5 windows of the length of the current window, the movement
  test answers no anomaly with confidence 0.0. The features are extracted before the
  windows are counted: when every current and historical sample has a latitude between
  -90 and 90 and a time stamp that is missing or without zone, the reason is
  \<^verbatim>\<open>Insufficient historical patterns\<close>; when an extraction raises, as it does for a
  current sample with a latitude outside that range, the reason is
  \<^verbatim>\<open>Detection error\<close>. The number of windows is the number of historical samples
  divided by the number of current samples, rounded down.
\<close>

theorem movement_insufficient_windows:
  assumes "3 \<le> length locations"
    and "10 \<le> length (get_user_movement_patterns db user_id 30)"
    and "length (window_starts (length (get_user_movement_patterns db user_id 30))
           (length locations)) < 5"
  shows "\<not> is_anomaly (detect_movement_anomaly env db user_id locations) \<and>
         confidence (detect_movement_anomaly env db user_id locations) = 0.0 \<and>
         (reason (detect_movement_anomaly env db user_id locations)
            = ''Insufficient historical patterns'' \<or>
          reason (detect_movement_anomaly env db user_id locations) = ''Detection error'') \<and>
         (list_all plain_sample locations \<and>
          list_all plain_sample (get_user_movement_patterns db user_id 30) \<longrightarrow>
            detect_movement_anomaly env db user_id locations =
              \<lparr>confidence = 0.0, reason = ''Insufficient historical patterns'',
               is_anomaly = False\<rparr>) \<and>
         ((\<exists>s \<in> set locations. snd (coordinates s) < - 90 \<or> 90 < snd (coordinates s)) \<longrightarrow>
            detect_movement_anomaly env db user_id locations =
              \<lparr>confidence = 0.0, reason = ''Detection error'', is_anomaly = False\<rparr>) \<and>
         length (window_starts (length (get_user_movement_patterns db user_id 30))
           (length locations)) =
           length (get_user_movement_patterns db user_id 30) div length locations"
proof -
  define history where "history = get_user_movement_patterns db user_id 30"
  note cases = movement_windows_cases [OF assms, of env, folded history_def]
  have "0 < length locations" using assms(1) by (cases locations) auto
  then have len: "length (window_starts (length history) (length locations)) =
                  length history div length locations"
    by (rule length_window_starts)
  have shape: "\<not> is_anomaly (detect_movement_anomaly env db user_id locations) \<and>
         confidence (detect_movement_anomaly env db user_id locations) = 0.0 \<and>
         (reason (detect_movement_anomaly env db user_id locations)
            = ''Insufficient historical patterns'' \<or>
          reason (detect_movement_anomaly env db user_id locations) = ''Detection error'')"
    unfolding cases by (simp add: detection_error_def split: option.splits)
  have plain: "detect_movement_anomaly env db user_id locations =
              \<lparr>confidence = 0.0, reason = ''Insufficient historical patterns'',
               is_anomaly = False\<rparr>"
    if p: "list_all plain_sample locations \<and> list_all plain_sample history"
  proof -
    have cur: "extract_movement_features env 0 locations \<noteq> None"
      using p by (intro extract_movement_features_plain) simp
    have "\<And>i. list_all plain_sample (take (length locations) (drop i history))"
    proof -
      fix i
      have "set (take (length locations) (drop i history)) \<subseteq> set history"
        using set_take_subset set_drop_subset by fast
      then show "list_all plain_sample (take (length locations) (drop i history))"
        using p by (auto simp: list_all_iff)
    qed
    then have win: "\<And>n i. \<exists>y. extract_movement_features env n
                                  (take (length locations) (drop i history)) = Some y"
      using extract_movement_features_plain by blast
    have "list_all (\<lambda>x. x \<noteq> None)
                 (map (\<lambda>(j, i). extract_movement_features env
                                  (2 * (length locations - 1) * (j + 1))
                                  (take (length locations) (drop i history)))
                    (enumerate 0 (window_starts (length history) (length locations))))"
      by (auto simp: list_all_iff win)
    then obtain hf where "all_or_raise
                 (map (\<lambda>(j, i). extract_movement_features env
                                  (2 * (length locations - 1) * (j + 1))
                                  (take (length locations) (drop i history)))
                    (enumerate 0 (window_starts (length history) (length locations)))) = Some hf"
      using all_or_raise_some by blast
    then show ?thesis
      unfolding cases using cur by (auto split: option.splits)
  qed
  have refused: "detect_movement_anomaly env db user_id locations =
              \<lparr>confidence = 0.0, reason = ''Detection error'', is_anomaly = False\<rparr>"
    if b: "\<exists>s \<in> set locations. snd (coordinates s) < - 90 \<or> 90 < snd (coordinates s)"
  proof -
    have "2 \<le> length locations" using assms(1) by simp
    with b have "movement_loop env 0 locations = None" by (rule movement_loop_refused)
    then have "extract_movement_features env 0 locations = None"
      using assms(1) by (simp add: extract_movement_features_def)
    then show ?thesis unfolding cases by (simp add: detection_error_def)
  qed
  from shape plain refused len show ?thesis
    unfolding history_def by blast
qed

theorem movement_insufficient_windows_witness:
  "3 \<le> length (replicate 3 untimed_sample) \<and>
   10 \<le> length (get_user_movement_patterns (example_db (replicate 14 untimed_sample)) ''u1'' 30) \<and>
   length (window_starts 14 3) = 4 \<and>
   list_all plain_sample (replicate 3 untimed_sample) \<and>
   list_all plain_sample (replicate 14 untimed_sample) \<and>
   detect_movement_anomaly example_env (example_db (replicate 14 untimed_sample)) ''u1''
       (replicate 3 untimed_sample)
     = \<lparr>confidence = 0, reason = ''Insufficient historical patterns'', is_anomaly = False\<rparr>"
proof -
  have a: "3 \<le> length (replicate 3 untimed_sample)" by simp
  have b: "10 \<le> length (get_user_movement_patterns (example_db (replicate 14 untimed_sample))
                          ''u1'' 30)"
    by (simp add: example_db_def)
  have w: "length (window_starts 14 3) = 4" by (simp add: length_window_starts)
  have c: "length (window_starts
                     (length (get_user_movement_patterns (example_db (replicate 14 untimed_sample))
                                ''u1'' 30))
                     (length (replicate 3 untimed_sample))) < 5"
    by (simp add: example_db_def w)
  have p3: "list_all plain_sample (replicate 3 untimed_sample)"
    by (simp add: plain_sample_def untimed_sample_def list_all_iff)
  have p14: "list_all plain_sample (replicate 14 untimed_sample)"
    by (simp add: plain_sample_def untimed_sample_def list_all_iff)
  have p14': "list_all plain_sample
                (get_user_movement_patterns (example_db (replicate 14 untimed_sample)) ''u1'' 30)"
    using p14 by (simp add: example_db_def)
  have "detect_movement_anomaly example_env (example_db (replicate 14 untimed_sample)) ''u1''
       (replicate 3 untimed_sample)
     = \<lparr>confidence = 0, reason = ''Insufficient historical patterns'', is_anomaly = False\<rparr>"
    using movement_insufficient_windows [OF a b c, of example_env] p3 p14' by simp
  with a b w p3 p14 show ?thesis by blast
qed

text \<open>
  Claim C10 as stated gives the reason \<^verbatim>\<open>Insufficient historical patterns\<close> whenever
  there are fewer than 5 windows. For three current samples at latitude 91, and for a
  current sample stamped with a zone next to one without time stamp, against 14
  historical samples (4 windows), an extraction raises and the reason is
  \<^verbatim>\<open>Detection error\<close>.
\<close>

theorem movement_windows_error_counterexample:
  "length (replicate 3 polar_sample) = 3 \<and>
   length (get_user_movement_patterns (example_db (replicate 14 untimed_sample)) ''u1'' 30) = 14 \<and>
   length (window_starts 14 3) = 4 \<and>
   detect_movement_anomaly example_env (example_db (replicate 14 untimed_sample)) ''u1''
       (replicate 3 polar_sample)
     = \<lparr>confidence = 0, reason = ''Detection error'', is_anomaly = False\<rparr> \<and>
   detect_movement_anomaly example_env (example_db (replicate 14 untimed_sample)) ''u1''
       [zulu_sample, untimed_sample, untimed_sample]
     = \<lparr>confidence = 0, reason = ''Detection error'', is_anomaly = False\<rparr>"
proof -
  have h: "get_user_movement_patterns (example_db (replicate 14 untimed_sample)) ''u1'' 30
             = replicate 14 untimed_sample"
    by (simp add: example_db_def)
  have w: "length (window_starts 14 3) = 4" by (simp add: length_window_starts)
  have polar: "extract_movement_features example_env 0 (replicate 3 polar_sample) = None"
    by (simp add: extract_movement_features_def polar_sample_def geodesic_def eval_nat_numeral)
  have zulu: "extract_movement_features example_env 0 [zulu_sample, untimed_sample, untimed_sample]
                = None"
    by (simp add: extract_movement_features_def zulu_sample_def untimed_sample_def geodesic_def)
  have a: "detect_movement_anomaly example_env (example_db (replicate 14 untimed_sample)) ''u1''
       (replicate 3 polar_sample)
     = \<lparr>confidence = 0, reason = ''Detection error'', is_anomaly = False\<rparr>"
    by (rule movement_error) (simp_all add: h w polar)
  have b: "detect_movement_anomaly example_env (example_db (replicate 14 untimed_sample)) ''u1''
       [zulu_sample, untimed_sample, untimed_sample]
     = \<lparr>confidence = 0, reason = ''Detection error'', is_anomaly = False\<rparr>"
    by (rule movement_error) (simp_all add: h w zulu)
  from h w a b show ?thesis by simp
qed

subsection \<open>Movement features and the clock\<close>

lemma geodesic_cong: "geodesic_km env = geodesic_km env' \<Longrightarrow> geodesic env = geodesic env'"
  by (simp add: geodesic_def fun_eq_iff)

lemma movement_loop_stamped:
  assumes "\<forall>s \<in> set locations. createdAt s \<noteq> None"
    and "geodesic_km env = geodesic_km env'"
  shows "movement_loop env k locations = movement_loop env' k' locations"
  using assms
proof (induction env k locations arbitrary: k' rule: movement_loop.induct)
  case (1 env k prev_loc curr_loc rest)
  from "1.prems" obtain t1 t2
    where t: "createdAt prev_loc = Some t1" "createdAt curr_loc = Some t2"
    by auto
  have g: "geodesic env = geodesic env'" using "1.prems"(2) by (rule geodesic_cong)
  have rest: "\<forall>s \<in> set (curr_loc # rest). createdAt s \<noteq> None" using "1.prems"(1) by simp
  show ?case
  proof (cases "geodesic env' (snd (coordinates prev_loc), fst (coordinates prev_loc))
                  (snd (coordinates curr_loc), fst (coordinates curr_loc))")
    case None
    then show ?thesis by (simp add: g Let_def)
  next
    case (Some distance)
    show ?thesis
    proof (cases "stamp_diff t2 t1")
      case None
      then show ?thesis using Some t by (simp add: g Let_def)
    next
      case (Some time_diff)
      have "movement_loop env (k + 2) (curr_loc # rest)
              = movement_loop env' (k' + 2) (curr_loc # rest)"
        using \<open>geodesic env' _ _ = Some distance\<close> Some t rest "1.prems"(2)
        by (intro "1.IH") (simp_all add: g)
      then show ?thesis
        using \<open>geodesic env' _ _ = Some distance\<close> Some t by (simp add: g Let_def)
    qed
  qed
qed simp_all

text \<open>
  Claim C7, as amended. On a sequence in which every sample carries a time stamp, the
  feature map is determined by the sequence and the distance function alone: it is the
  same at every state of the clock, so two calls on the identical sequence return
  identical maps, or both raise.
\<close>

theorem extract_movement_features_pure:
  assumes "\<forall>s \<in> set locations. createdAt s \<noteq> None"
    and "geodesic_km env = geodesic_km env'"
  shows "extract_movement_features env k locations = extract_movement_features env' k' locations"
  using movement_loop_stamped [OF assms, of k k']
  by (simp add: extract_movement_features_def)

theorem extract_movement_features_pure_witness:
  "createdAt (sample_at 77 28.5 0) \<noteq> None \<and> createdAt (sample_at 77 28.6 60) \<noteq> None \<and>
   geodesic_km example_env = geodesic_km (example_env\<lparr>utcnow := square_clock\<rparr>) \<and>
   extract_movement_features example_env 0 [sample_at 77 28.5 0, sample_at 77 28.6 60]
     = extract_movement_features (example_env\<lparr>utcnow := square_clock\<rparr>) 2
         [sample_at 77 28.5 0, sample_at 77 28.6 60] \<and>
   (\<exists>features.
      extract_movement_features example_env 0 [sample_at 77 28.5 0, sample_at 77 28.6 60]
        = Some features \<and>
      map_of features ''avg_time_interval'' = Some 60)"
  using extract_movement_features_pure [of "[sample_at 77 28.5 0, sample_at 77 28.6 60]"
      example_env "example_env\<lparr>utcnow := square_clock\<rparr>" 0 2]
  by (simp add: sample_at_def extract_movement_features_def geodesic_def np_mean_def Let_def)

text \<open>
  Claim C7 as stated covers every sequence of samples. For a sample without
  \<^verbatim>\<open>createdAt\<close> the extraction reads the clock, and two successive calls on the same two
  samples, the second starting after the two readings of the first, return different
  maps.
\<close>

theorem extract_movement_features_clock_counterexample:
  "extract_movement_features (example_env\<lparr>utcnow := square_clock\<rparr>) 0
     [untimed_sample, untimed_sample]
   \<noteq> extract_movement_features (example_env\<lparr>utcnow := square_clock\<rparr>) 2
       [untimed_sample, untimed_sample]"
  by (simp add: extract_movement_features_def untimed_sample_def example_env_def geodesic_def
      Let_def square_clock_def np_mean_def np_var_def)

section \<open>Properties of the pattern analyzer\<close>

subsection \<open>Forecast\<close>

text \<open>
  The slope of \<^const>\<open>polyfit_slope\<close> is the least-squares one: with its intercept it
  satisfies the normal equations, and no line has a smaller sum of squared residuals.
\<close>

lemma residual_sum:
  fixes xs ys :: "real list"
  assumes "length xs = length ys"
  shows "(\<Sum>(x, y) \<leftarrow> zip xs ys. y - (c + m * x))
           = sum_list ys - real (length xs) * c - m * sum_list xs"
  using assms by (induction xs ys rule: list_induct2) (simp_all add: algebra_simps)

lemma residual_moment:
  fixes xs ys :: "real list"
  assumes "length xs = length ys"
  shows "(\<Sum>(x, y) \<leftarrow> zip xs ys. (y - (c + m * x)) * x)
           = sum_list (map2 (*) xs ys) - c * sum_list xs - m * sum_list (map (\<lambda>x. x * x) xs)"
  using assms by (induction xs ys rule: list_induct2) (simp_all add: algebra_simps)

lemma squared_error_shift:
  assumes "length xs = length ys"
  shows "squared_error (c + dc) (m + dm) xs ys
           = squared_error c m xs ys
             - 2 * dc * (\<Sum>(x, y) \<leftarrow> zip xs ys. y - (c + m * x))
             - 2 * dm * (\<Sum>(x, y) \<leftarrow> zip xs ys. (y - (c + m * x)) * x)
             + (\<Sum>x \<leftarrow> xs. (dc + dm * x) ^ 2)"
  using assms unfolding squared_error_def
  by (induction xs ys rule: list_induct2) (simp_all add: algebra_simps power2_eq_square)

lemma polyfit_normal_equations:
  assumes len: "length xs = length ys"
    and det: "real (length xs) * sum_list (map (\<lambda>x. x * x) xs) - sum_list xs * sum_list xs \<noteq> 0"
  shows "(\<Sum>(x, y) \<leftarrow> zip xs ys. y - (polyfit_intercept xs ys + polyfit_slope xs ys * x)) = 0"
    and "(\<Sum>(x, y) \<leftarrow> zip xs ys. (y - (polyfit_intercept xs ys + polyfit_slope xs ys * x)) * x) = 0"
proof -
  define n where "n = real (length xs)"
  define sx where "sx = sum_list xs"
  define sy where "sy = sum_list ys"
  define sxy where "sxy = sum_list (map2 (*) xs ys)"
  define sxx where "sxx = sum_list (map (\<lambda>x. x * x) xs)"
  define m where "m = (n * sxy - sx * sy) / (n * sxx - sx * sx)"
  define c where "c = (sy - m * sx) / n"
  have d: "n * sxx - sx * sx \<noteq> 0" using det by (simp add: n_def sxx_def sx_def)
  have n0: "n \<noteq> 0"
  proof
    assume "n = 0"
    then have "xs = []" by (simp add: n_def)
    then show False using det by simp
  qed
  have pm: "polyfit_slope xs ys = m"
    by (simp add: polyfit_slope_def Let_def m_def n_def sx_def sy_def sxy_def sxx_def)
  have pc: "polyfit_intercept xs ys = c"
    by (simp add: polyfit_intercept_def pm c_def sy_def sx_def n_def)
  have e1: "sy - n * c - m * sx = 0"
    using n0 by (simp add: c_def)
  have mh: "m * (n * sxx - sx * sx) = n * sxy - sx * sy"
    using d by (simp add: m_def)
  have nc: "n * c = sy - m * sx"
    using n0 by (simp add: c_def)
  have "n * (sxy - c * sx - m * sxx) = n * sxy - (n * c) * sx - m * (n * sxx)"
    by (simp add: algebra_simps)
  also have "\<dots> = n * sxy - (sy - m * sx) * sx - m * (n * sxx)"
    by (simp only: nc)
  also have "\<dots> = (n * sxy - sx * sy) - m * (n * sxx - sx * sx)"
    by (simp add: algebra_simps)
  also have "\<dots> = 0"
    using mh by simp
  finally have e2: "sxy - c * sx - m * sxx = 0"
    using n0 by simp
  show "(\<Sum>(x, y) \<leftarrow> zip xs ys. y - (polyfit_intercept xs ys + polyfit_slope xs ys * x)) = 0"
    unfolding pm pc residual_sum [OF len] using e1 by (simp add: n_def sy_def sx_def)
  show "(\<Sum>(x, y) \<leftarrow> zip xs ys. (y - (polyfit_intercept xs ys + polyfit_slope xs ys * x)) * x) = 0"
    unfolding pm pc residual_moment [OF len] using e2 by (simp add: sxy_def sx_def sxx_def)
qed

lemma polyfit_slope_least_squares:
  assumes len: "length xs = length ys"
    and det: "real (length xs) * sum_list (map (\<lambda>x. x * x) xs) - sum_list xs * sum_list xs \<noteq> 0"
  shows "squared_error (polyfit_intercept xs ys) (polyfit_slope xs ys) xs ys
           \<le> squared_error c' m' xs ys"
proof -
  define c where "c = polyfit_intercept xs ys"
  define m where "m = polyfit_slope xs ys"
  have "squared_error c' m' xs ys = squared_error (c + (c' - c)) (m + (m' - m)) xs ys"
    by simp
  also have "\<dots> = squared_error c m xs ys + (\<Sum>x \<leftarrow> xs. ((c' - c) + (m' - m) * x) ^ 2)"
    unfolding squared_error_shift [OF len] c_def m_def
    by (simp add: polyfit_normal_equations [OF len det])
  finally have "squared_error c' m' xs ys
                  = squared_error c m xs ys + (\<Sum>x \<leftarrow> xs. ((c' - c) + (m' - m) * x) ^ 2)" .
  moreover have "0 \<le> (\<Sum>x \<leftarrow> xs. ((c' - c) + (m' - m) * x) ^ 2)"
    by (rule sum_list_nonneg) auto
  ultimately show ?thesis by (simp add: c_def m_def)
qed



























subsection \<open>Hotspots\<close>

lemma cluster_id_cluster_hotspot: "cluster_id (cluster_hotspot ps is ls c) = c"
  by (simp add: cluster_hotspot_def Let_def)

lemma sorted_desc_take_sort_key:
  "sorted_wrt (\<lambda>a b. a \<ge> b)
     (map risk_score (take n (sort_key (\<lambda>h. - risk_score h) (hs :: hotspot list))))"
proof -
  have "sorted (map (\<lambda>h. - risk_score h) (sort_key (\<lambda>h. - risk_score h) hs))"
    by (rule sorted_sort_key)
  then have "sorted (take n (map (\<lambda>h. - risk_score h) (sort_key (\<lambda>h. - risk_score h) hs)))"
    by (rule sorted_wrt_take)
  then show ?thesis
    by (simp add: take_map sorted_wrt_map)
qed

lemma length_located_points: "length (located_points incidents) \<le> length incidents"
  by (simp add: located_points_def)

lemma identify_hotspots_few:
  assumes "length (located_points incidents) < 10"
  shows "\<exists>e. identify_hotspots fit_labels incidents = Inl e"
  using assms by (simp add: identify_hotspots_def Let_def)

lemma identify_hotspots_enough:
  assumes "10 \<le> length (located_points incidents)"
  shows "identify_hotspots fit_labels incidents =
           Inr \<lparr>hotspots =
                  take 10 (sort_key (\<lambda>h. - risk_score h)
                    (map (cluster_hotspot (located_points incidents)
                            (filter (\<lambda>i. inc_coordinates i \<noteq> None) incidents)
                            (fit_labels 0.005 5 (located_points incidents)))
                       (filter (\<lambda>cid. cid \<noteq> - 1)
                          (remdups (fit_labels 0.005 5 (located_points incidents)))))),
                total_hotspots =
                  length (filter (\<lambda>cid. cid \<noteq> - 1)
                            (remdups (fit_labels 0.005 5 (located_points incidents)))),
                noise_points =
                  length (filter (\<lambda>l. l = - 1) (fit_labels 0.005 5 (located_points incidents)))\<rparr>"
proof -
  have "10 \<le> length incidents"
    using assms length_located_points [of incidents] by linarith
  then show ?thesis
    using assms by (simp add: identify_hotspots_def Let_def)
qed

text \<open>
  Claim C8, as amended. With fewer than 10 incidents that carry coordinates the hotspot
  identification returns an error message and no list: \<^verbatim>\<open>Insufficient data for hotspot
  analysis\<close> for fewer than 10 incidents, \<^verbatim>\<open>Insufficient location data\<close> for at least
  10 incidents of which fewer than 10 carry coordinates. With at least 10 it returns a
  report whose hotspot list holds no cluster with the noise label, is sorted by
  descending risk score and has at most 10 entries, and whose noise count is the
  number of points that the clustering with \<open>eps = 0.005\<close> and \<open>min_samples = 5\<close> labels
  as noise.
\<close>

theorem identify_hotspots_report:
  "(length (located_points incidents) < 10 \<longrightarrow>
      (\<exists>e. identify_hotspots fit_labels incidents = Inl e)) \<and>
   (length incidents < 10 \<longrightarrow>
      identify_hotspots fit_labels incidents = Inl ''Insufficient data for hotspot analysis'') \<and>
   (10 \<le> length incidents \<and> length (located_points incidents) < 10 \<longrightarrow>
      identify_hotspots fit_labels incidents = Inl ''Insufficient location data'') \<and>
   (10 \<le> length (located_points incidents) \<longrightarrow>
      (\<exists>rep. identify_hotspots fit_labels incidents = Inr rep \<and>
         list_all (\<lambda>h. cluster_id h \<noteq> - 1) (hotspots rep) \<and>
         sorted_wrt (\<lambda>a b. a \<ge> b) (map risk_score (hotspots rep)) \<and>
         length (hotspots rep) \<le> 10 \<and>
         noise_points rep =
           length (filter (\<lambda>l. l = - 1) (fit_labels 0.005 5 (located_points incidents)))))"
proof (intro conjI impI)
  assume "length (located_points incidents) < 10"
  then show "\<exists>e. identify_hotspots fit_labels incidents = Inl e"
    by (rule identify_hotspots_few)
next
  assume "length incidents < 10"
  then show "identify_hotspots fit_labels incidents
               = Inl ''Insufficient data for hotspot analysis''"
    by (simp add: identify_hotspots_def)
next
  assume "10 \<le> length incidents \<and> length (located_points incidents) < 10"
  then show "identify_hotspots fit_labels incidents = Inl ''Insufficient location data''"
    by (simp add: identify_hotspots_def Let_def)
next
  assume enough: "10 \<le> length (located_points incidents)"
  define found where
    "found = map (cluster_hotspot (located_points incidents)
                    (filter (\<lambda>i. inc_coordinates i \<noteq> None) incidents)
                    (fit_labels 0.005 5 (located_points incidents)))
               (filter (\<lambda>cid. cid \<noteq> - 1)
                  (remdups (fit_labels 0.005 5 (located_points incidents))))"
  have all_found: "list_all (\<lambda>h. cluster_id h \<noteq> - 1) found"
    by (simp add: found_def list_all_iff cluster_id_cluster_hotspot)
  have "set (take 10 (sort_key (\<lambda>h. - risk_score h) found)) \<subseteq> set found"
    using set_take_subset [of 10 "sort_key (\<lambda>h. - risk_score h) found"] by simp
  then have ids: "list_all (\<lambda>h. cluster_id h \<noteq> - 1)
                    (take 10 (sort_key (\<lambda>h. - risk_score h) found))"
    using all_found by (auto simp: list_all_iff)
  show "\<exists>rep. identify_hotspots fit_labels incidents = Inr rep \<and>
         list_all (\<lambda>h. cluster_id h \<noteq> - 1) (hotspots rep) \<and>
         sorted_wrt (\<lambda>a b. a \<ge> b) (map risk_score (hotspots rep)) \<and>
         length (hotspots rep) \<le> 10 \<and>
         noise_points rep =
           length (filter (\<lambda>l. l = - 1) (fit_labels 0.005 5 (located_points incidents)))"
    unfolding identify_hotspots_enough [OF enough] found_def [symmetric]
    using ids by (simp add: sorted_desc_take_sort_key)
qed

lemma example_points:
  "located_points example_incidents =
     replicate 5 (28, 77) @ [(40, 80)] @ replicate 5 (29, 78)"
  by (simp add: located_points_def example_incidents_def incident_at_def)

lemma example_labels:
  "example_fit eps m (located_points example_incidents) = [0, 0, 0, 0, 0, - 1, 1, 1, 1, 1, 1]"
  by (simp add: example_points example_fit_def eval_nat_numeral)

theorem identify_hotspots_report_witness:
  "10 \<le> length (located_points example_incidents) \<and>
   (\<exists>rep. identify_hotspots example_fit example_incidents = Inr rep \<and>
      map cluster_id (hotspots rep) = [1, 0] \<and>
      map risk_score (hotspots rep) = [1, 0.2] \<and>
      noise_points rep = 1) \<and>
   length (located_points (replicate 9 (incident_at 77 28 ''high''))) < 10 \<and>
   identify_hotspots example_fit (replicate 9 (incident_at 77 28 ''high''))
     = Inl ''Insufficient data for hotspot analysis''"
proof -
  have len: "10 \<le> length (located_points example_incidents)"
    by (simp add: example_points)
  then obtain rep where rep: "identify_hotspots example_fit example_incidents = Inr rep"
      "noise_points rep =
         length (filter (\<lambda>l. l = - 1) (example_fit 0.005 5 (located_points example_incidents)))"
    using identify_hotspots_report [of example_incidents example_fit] by blast
  have noise: "noise_points rep = 1"
    using rep(2) by (simp add: example_labels)
  have "identify_hotspots example_fit example_incidents = Inr rep \<Longrightarrow>
        map cluster_id (hotspots rep) = [1, 0] \<and> map risk_score (hotspots rep) = [1, 0.2]"
    unfolding identify_hotspots_enough [OF len] example_labels
    by (auto simp: cluster_hotspot_def Let_def example_points example_incidents_def
        incident_at_def count_keys_def severity_weight_def round2_def py_round_def
        eval_nat_numeral)
  with rep(1) noise have "identify_hotspots example_fit example_incidents = Inr rep \<and>
      map cluster_id (hotspots rep) = [1, 0] \<and>
      map risk_score (hotspots rep) = [1, 0.2] \<and>
      noise_points rep = 1"
    by simp
  then have a: "\<exists>rep. identify_hotspots example_fit example_incidents = Inr rep \<and>
      map cluster_id (hotspots rep) = [1, 0] \<and>
      map risk_score (hotspots rep) = [1, 0.2] \<and>
      noise_points rep = 1"
    by (rule exI)
  have "length (located_points (replicate 9 (incident_at 77 28 ''high'')))
          \<le> length (replicate 9 (incident_at 77 28 ''high''))"
    by (rule length_located_points)
  then have b: "length (located_points (replicate 9 (incident_at 77 28 ''high''))) < 10"
    by simp
  have c: "identify_hotspots example_fit (replicate 9 (incident_at 77 28 ''high''))
     = Inl ''Insufficient data for hotspot analysis''"
    by (simp add: identify_hotspots_def)
  from len a b c show ?thesis by blast
qed

text \<open>
  Claim C8 as stated promises a hotspot list for every set of incidents. Nine incidents
  at one point give the error message instead.
\<close>

theorem identify_hotspots_few_counterexample:
  "identify_hotspots example_fit (replicate 9 (incident_at 77 28 ''high''))
     = Inl ''Insufficient data for hotspot analysis''"
  by (simp add: identify_hotspots_def)

end
